theory Spec2Isabelle
  imports Main "HOL-Library.Sublist"
begin

section \<open>Python strings and curses key codes\<close>

text \<open>
  Strings are \<^typ>\<open>string\<close> (byte characters); the commands, tool names and prompts of
  the program are ASCII. \<open>ord\<close> is Python's \<open>ord\<close> on such a character.
\<close>

definition ord :: "char \<Rightarrow> int" where
  "ord c = of_char c"

text \<open>
  The whitespace \<open>str.strip\<close> and \<open>str.rstrip\<close> remove, restricted to ASCII: space, tab,
  newline, vertical tab, form feed, carriage return and the four separators 0x1C..0x1F.
\<close>

definition isspace :: "char \<Rightarrow> bool" where
  "isspace c = (c \<in> set [CHR '' '', CHR 0x09, CHR 0x0A, CHR 0x0B, CHR 0x0C, CHR 0x0D,
                          CHR 0x1C, CHR 0x1D, CHR 0x1E, CHR 0x1F])"

definition lstrip :: "string \<Rightarrow> string" where
  "lstrip s = dropWhile isspace s"

definition rstrip :: "string \<Rightarrow> string" where
  "rstrip s = rev (dropWhile isspace (rev s))"

definition strip :: "string \<Rightarrow> string" where
  "strip s = rstrip (lstrip s)"

definition lower_char :: "char \<Rightarrow> char" where
  "lower_char c = (if 65 \<le> ord c \<and> ord c \<le> 90 then char_of (ord c + 32) else c)"

definition lower :: "string \<Rightarrow> string" where
  "lower s = map lower_char s"

definition isdigit_char :: "char \<Rightarrow> bool" where
  "isdigit_char c = (48 \<le> ord c \<and> ord c \<le> 57)"

text \<open>\<open>str.isdigit\<close>: non-empty and every character a digit.\<close>

definition isdigit :: "string \<Rightarrow> bool" where
  "isdigit s = (s \<noteq> [] \<and> list_all isdigit_char s)"

text \<open>\<open>int(s)\<close> for a string of ASCII digits.\<close>

definition int_of_digits :: "string \<Rightarrow> int" where
  "int_of_digits s = foldl (\<lambda>n c. 10 * n + (ord c - 48)) 0 s"

text \<open>
  \<open>s.replace(old, new)\<close>: every non-overlapping occurrence of \<open>old\<close>, left to right.
  With an empty \<open>old\<close> Python puts \<open>new\<close> before every character and at the end.
\<close>

function replace :: "string \<Rightarrow> string \<Rightarrow> string \<Rightarrow> string" where
  "replace old new s =
     (if old = [] then new @ concat (map (\<lambda>c. c # new) s)
      else if s = [] then []
      else if prefix old s then new @ replace old new (drop (length old) s)
      else hd s # replace old new (tl s))"
  by pat_completeness auto
termination
  by (relation "measure (\<lambda>(old, new, s). length s)") auto

declare replace.simps [simp del]

text \<open>
  The key codes of curses (the library's constants, as ncurses defines them) and the
  value \<open>getch\<close> returns in no-delay mode when no key is pending.
\<close>

definition KEY_UP :: int where "KEY_UP = 259"
definition KEY_DOWN :: int where "KEY_DOWN = 258"
definition ERR :: int where "ERR = - 1"

text \<open>
  The keyboard is the list of results the coming \<open>getch\<close> calls return. In no-delay mode
  a call with nothing pending returns \<open>ERR\<close>; a blocking call with nothing left never
  returns, which is \<open>None\<close>.
\<close>

definition getch_nodelay :: "int list \<Rightarrow> int \<times> int list" where
  "getch_nodelay keys = (case keys of [] \<Rightarrow> (ERR, []) | c # cs \<Rightarrow> (c, cs))"

definition getch_blocking :: "int list \<Rightarrow> (int \<times> int list) option" where
  "getch_blocking keys = (case keys of [] \<Rightarrow> None | c # cs \<Rightarrow> Some (c, cs))"

section \<open>Tool presence\<close>

text \<open>
  \<open>shutil.which\<close> is the search path, a parameter: the path of the executable, or
  \<open>None\<close>. \<open>is_tool_installed\<close> of momo9.py and momo10.py:
\<close>

definition is_tool_installed :: "(string \<Rightarrow> string option) \<Rightarrow> string \<Rightarrow> bool" where
  "is_tool_installed which tool_name =
     (if tool_name \<in> set [''cat'', ''free'', ''swapon'', ''df'', ''ping''] then True
      else which tool_name \<noteq> None)"

text \<open>\<open>is_tool_installed\<close> of momo7.py (momo4.py and momo6.py have the same list):\<close>

definition is_tool_installed_momo7 :: "(string \<Rightarrow> string option) \<Rightarrow> string \<Rightarrow> bool" where
  "is_tool_installed_momo7 which tool_name =
     (if tool_name \<in> set [''cat'', ''free'', ''swapon'', ''df'', ''ping'',
                            ''uptime'', ''uname'', ''top''] then True
      else which tool_name \<noteq> None)"

text \<open>\<open>check_tool_available\<close> of momo.py has no whitelist.\<close>

definition check_tool_available :: "(string \<Rightarrow> string option) \<Rightarrow> string \<Rightarrow> bool" where
  "check_tool_available which tool = (which tool \<noteq> None)"

section \<open>momo.py: the table of tests and the menu\<close>

definition TESTS :: "(string \<times> string \<times> string) list" where
  "TESTS =
    [(''RAM Usage'', ''free -h'', ''free''),
     (''RAM Details'', ''cat /proc/meminfo'', ''cat''),
     (''RAM Stress Test (30s)'', ''stress-ng --vm 2 --vm-bytes 75% --cpu 2 --timeout 30s'', ''stress-ng''),
     (''Memtester 512M'', ''memtester 512M 1'', ''memtester''),
     (''Memory Speed'', ''sysbench memory --memory-block-size=1M --memory-total-size=512M run'', ''sysbench''),
     (''Swap Usage'', ''swapon --show'', ''swapon''),
     (''CPU Info'', ''lscpu'', ''lscpu''),
     (''CPU Stress Test (20s)'', ''stress-ng --cpu 2 --timeout 20s'', ''stress-ng''),
     (''Smart Status'', ''smartctl -a /dev/sda'', ''smartctl''),
     (''Disk Speed'', ''hdparm -tT /dev/sda'', ''hdparm''),
     (''Disk Usage'', ''df -h'', ''df''),
     (''Sensors'', ''sensors'', ''sensors''),
     (''Ping Test'', ''ping -c 2 google.com'', ''ping'')]"

definition DISK_TESTS :: "string list" where
  "DISK_TESTS = [''Smart Status'', ''Disk Speed'']"


text \<open>
  What a key does, as the \<open>if\<close>/\<open>elif\<close> chains of the two loops decide it. In the
  menu (\<open>run_menu\<close>) the quit keys are \<open>q\<close> and \<open>Q\<close>; while a test streams
  (\<open>run_test\<close>) only the two arrows and the lower-case \<open>s\<close> and \<open>q\<close> have a branch.
\<close>

datatype key_event = ScrollUp | ScrollDown | Select | RunAllKey | Stop | Quit | NoEvent


definition stream_key :: "int \<Rightarrow> key_event" where
  "stream_key c =
     (if c = KEY_UP then ScrollUp
      else if c = KEY_DOWN then ScrollDown
      else if c \<in> set [ord CHR ''s'', ord CHR ''q''] then Stop
      else NoEvent)"



section \<open>momo.py: the child process and \<open>run_command_stream\<close>\<close>

text \<open>
  The exceptions of the model, each with the text \<open>str(e)\<close> gives where the program
  prints it.
\<close>

datatype exn = FileNotFoundError string | OtherException string | IndexError | EOFError

definition str_of_exn :: "exn \<Rightarrow> string" where
  "str_of_exn e =
     (case e of
        FileNotFoundError m \<Rightarrow> m
      | OtherException m \<Rightarrow> m
      | IndexError \<Rightarrow> ''list index out of range''
      | EOFError \<Rightarrow> ''EOF when reading a line'')"

text \<open>
  A function of the program returns, raises, or waits for a key that never comes.
\<close>

datatype 'a result = Returns 'a | Raises exn | Blocks

text \<open>
  The child process, as the program sees it: the lines its merged standard output and
  standard error deliver, in order, and whether it is still running when the pipe has
  reached its end (\<open>process.poll() is None\<close>).
\<close>

record child =
  stdout_lines :: "string list"
  running_at_eof :: bool

text \<open>
  What the program does to the world, in order: a child is spawned, \<open>terminate()\<close>,
  \<open>wait()\<close> and \<open>poll()\<close> are called on it, a log file is written (its name and the
  lines written to it), a message is shown, the user is prompted on standard input.
\<close>

datatype event =
    Popen string
  | Terminate
  | Wait
  | Poll
  | WriteLog string "string list"
  | ShowMessage string
  | Prompt string

text \<open>
  The terminal and the trace: the results of the coming \<open>getch\<close> calls, the lines the
  coming \<open>input()\<close> calls read, the events so far.
\<close>

record world =
  keys :: "int list"
  stdin :: "string list"
  trace :: "event list"

text \<open>
  The generator \<open>run_command_stream(cmd, stop_flag)\<close> of momo.py, as the states in which
  it is suspended: not started (with what \<open>subprocess.Popen\<close> will do: raise, or start
  the child), at \<open>yield line.rstrip()\<close> (with what is left of the child's output), at the
  yield of the termination notice, at the yield of an \<open>except\<close> clause, and finished.
\<close>

datatype generator =
    GenStart string "exn + child"
  | GenAtLine child
  | GenAtTerminated
  | GenAtError
  | GenDone

definition terminated_marker :: string where
  "terminated_marker = CHR 0x0A # ''--- Test Terminated by User ---''"

definition spawn_error_line :: "string \<Rightarrow> exn \<Rightarrow> string" where
  "spawn_error_line cmd e =
     (case e of
        FileNotFoundError m \<Rightarrow> ''ERROR: Command not found or tool not installed. Command: '' @ cmd
      | _ \<Rightarrow> ''ERROR: An exception occurred: '' @ str_of_exn e)"

text \<open>
  The head of \<open>for line in process.stdout\<close>: the next line is yielded, stripped on the
  right; at the end of the stream the code after the loop polls the child and waits for
  it if it is still running, and the generator returns.
\<close>

definition for_line :: "child \<Rightarrow> string option \<times> generator \<times> event list" where
  "for_line p =
     (case stdout_lines p of
        [] \<Rightarrow> (None, GenDone, Poll # (if running_at_eof p then [Wait] else []))
      | l # ls \<Rightarrow> (Some (rstrip l), GenAtLine (p\<lparr>stdout_lines := ls\<rparr>), []))"

text \<open>
  One \<open>next()\<close> on the generator, with the value \<open>stop_flag["stop"]\<close> has at that
  moment: the item yielded (\<open>None\<close> is StopIteration), the new state, the events.
  Resumed after a line with the flag set, it terminates the child, waits for it and
  yields the notice; resumed after the notice it breaks, and the poll after the loop finds
  the child gone.
\<close>

fun gen_next :: "bool \<Rightarrow> generator \<Rightarrow> string option \<times> generator \<times> event list" where
  "gen_next stop (GenStart cmd (Inl e)) = (Some (spawn_error_line cmd e), GenAtError, [])"
| "gen_next stop (GenStart cmd (Inr p)) =
     (case for_line p of (y, g, evs) \<Rightarrow> (y, g, Popen cmd # evs))"
| "gen_next stop (GenAtLine p) =
     (if stop then (Some terminated_marker, GenAtTerminated, [Terminate, Wait])
      else for_line p)"
| "gen_next stop GenAtTerminated = (None, GenDone, [Poll])"
| "gen_next stop GenAtError = (None, GenDone, [])"
| "gen_next stop GenDone = (None, GenDone, [])"

text \<open>
  A generator that is dropped while suspended is closed: GeneratorExit is raised at its
  yield. It is not an \<open>Exception\<close>, so neither \<open>except\<close> clause catches it, and there is
  no \<open>finally\<close>: no statement of the generator runs any more.
\<close>

definition gen_close :: "generator \<Rightarrow> generator" where
  "gen_close g = GenDone"

fun gen_measure :: "generator \<Rightarrow> nat" where
  "gen_measure (GenStart cmd (Inl e)) = 2"
| "gen_measure (GenStart cmd (Inr p)) = length (stdout_lines p) + 3"
| "gen_measure (GenAtLine p) = length (stdout_lines p) + 2"
| "gen_measure GenAtTerminated = 1"
| "gen_measure GenAtError = 1"
| "gen_measure GenDone = 0"

section \<open>momo.py: \<open>run_test\<close>\<close>

definition pad_height :: int where
  "pad_height = 5000"

definition pad_full_marker :: string where
  "pad_full_marker = ''--- PAD BUFFER FULL. Output truncated. ---''"

text \<open>
  The variables of the streaming loop of \<open>run_test\<close> (lines 235 to 283), with the
  keyboard and the trace. The calls that draw (\<open>pad.addstr\<close>, \<open>pad.refresh\<close>) and the
  sleep are not modelled.
\<close>

record loop_state =
  lines :: "string list"
  idx_line :: int
  offset :: int
  stop_flag :: bool
  gen :: generator
  pending :: "int list"
  events :: "event list"

text \<open>
  \<open>for line in run_command_stream(cmd, stop_flag): ...\<close> with \<open>h\<close> the height of the
  screen. A \<open>break\<close> drops the generator.
\<close>

function stream_loop :: "int \<Rightarrow> loop_state \<Rightarrow> loop_state" where
  "stream_loop h st =
     (case gen_next (stop_flag st) (gen st) of
        (None, g, evs) \<Rightarrow> st\<lparr>gen := g, events := events st @ evs\<rparr>
      | (Some line, g, evs) \<Rightarrow>
          if idx_line st \<ge> pad_height
          then st\<lparr>lines := lines st @ [pad_full_marker], gen := gen_close g,
                  events := events st @ evs\<rparr>
          else
            (let idx = idx_line st + 1;
                 off = (if idx > h - 6 \<and> offset st < idx - (h - 6) then idx - (h - 6)
                        else offset st);
                 c = fst (getch_nodelay (pending st));
                 st' = st\<lparr>lines := lines st @ [line], idx_line := idx, gen := g,
                          pending := snd (getch_nodelay (pending st)),
                          events := events st @ evs\<rparr>
             in case stream_key c of
                  ScrollUp \<Rightarrow> stream_loop h (st'\<lparr>offset := max 0 (off - 1)\<rparr>)
                | ScrollDown \<Rightarrow> stream_loop h (st'\<lparr>offset := off + 1\<rparr>)
                | Stop \<Rightarrow> st'\<lparr>offset := off, stop_flag := True, gen := gen_close g\<rparr>
                | _ \<Rightarrow> stream_loop h (st'\<lparr>offset := off\<rparr>)))"
  by pat_completeness auto
termination
  by (relation "measure (\<lambda>(h, st). gen_measure (gen st))")
     (auto elim!: gen_next.elims [OF sym] simp: for_line_def split: list.splits if_splits)

declare stream_loop.simps [simp del]

text \<open>
  What the program asks of its surroundings: the search path, what \<open>subprocess.Popen\<close>
  does with a command, the result of \<open>get_disks()\<close>, what \<open>lsblk\<close> printed (or the
  exception \<open>subprocess.run\<close> raised), the height of the screen, the time stamp of the
  log, and the exception, if any, that opening or writing the log file raises.
\<close>

record env =
  which :: "string \<Rightarrow> string option"
  popen :: "string \<Rightarrow> exn + child"
  get_disks :: "string list"
  lsblk :: "exn + string list"
  height :: int
  timestamp :: string
  log_write_error :: "string option"

text \<open>\<open>show_message\<close>: the message is drawn, then a blocking \<open>getch\<close>.\<close>

definition show_message :: "string \<Rightarrow> world \<Rightarrow> unit result \<times> world" where
  "show_message message w =
     (case getch_blocking (keys w) of
        None \<Rightarrow> (Blocks, w\<lparr>trace := trace w @ [ShowMessage message]\<rparr>)
      | Some (c, cs) \<Rightarrow> (Returns (), w\<lparr>keys := cs, trace := trace w @ [ShowMessage message]\<rparr>))"

text \<open>
  \<open>select_disk\<close> of momo.py. \<open>int(chr(choice))\<close> raises ValueError unless the key is a
  digit, and the loop goes on; \<open>c\<close> cancels.
\<close>

fun select_disk_loop :: "string list \<Rightarrow> int list \<Rightarrow> string option result \<times> int list" where
  "select_disk_loop disks [] = (Blocks, [])"
| "select_disk_loop disks (c # cs) =
     (if c = ord CHR ''c'' then (Returns None, cs)
      else if 48 \<le> c \<and> c \<le> 57 then
        (let choice = (c - 48) - 1 in
         if 0 \<le> choice \<and> choice < int (length disks)
         then (Returns (Some (disks ! nat choice)), cs)
         else select_disk_loop disks cs)
      else select_disk_loop disks cs)"

definition select_disk :: "env \<Rightarrow> world \<Rightarrow> string option result \<times> world" where
  "select_disk env w =
     (let disks = get_disks env in
      if disks = [] then
        (case show_message ''No disks found for testing.'' w of
           (Returns u, w') \<Rightarrow> (Returns None, w')
         | (Raises e, w') \<Rightarrow> (Raises e, w')
         | (Blocks, w') \<Rightarrow> (Blocks, w'))
      else case select_disk_loop disks (keys w) of (r, cs) \<Rightarrow> (r, w\<lparr>keys := cs\<rparr>))"

text \<open>
  \<open>write_log_stream\<close> of momo.py: the name of the log file and, unless writing fails, the
  file with its header, the lines and the footer. A failure is caught and reported in
  place of the name.
\<close>

definition write_log_stream :: "env \<Rightarrow> string \<Rightarrow> string list \<Rightarrow> string \<times> event list" where
  "write_log_stream env test_name ls =
     (let sanitized_name = replace ''/'' ''_'' (replace '' '' ''_'' test_name);
          name = sanitized_name @ ''_'' @ timestamp env @ ''.log''
      in case log_write_error env of
           None \<Rightarrow>
             (name,
              [WriteLog name
                 ([''--- Momo Diagnostics Log: '' @ test_name @ '' ---'',
                   ''Date: '' @ timestamp env,
                   replicate 50 CHR ''-''] @ ls @ [replicate 50 CHR ''-''])])
         | Some e \<Rightarrow> (''Failed to write log: '' @ e, []))"

text \<open>
  \<open>run_test\<close> from the set-up of the display to the message at the end (lines 228 to
  292): the loop, the log, the message.
\<close>

definition stream_test :: "env \<Rightarrow> string \<Rightarrow> string \<Rightarrow> world \<Rightarrow> unit result \<times> world" where
  "stream_test env test_name cmd w =
     (let st = stream_loop (height env)
                 \<lparr>lines = [], idx_line = 0, offset = 0, stop_flag = False,
                  gen = GenStart cmd (popen env cmd), pending = keys w, events = trace w\<rparr>;
          logged = write_log_stream env test_name (lines st)
      in show_message (''Finished: '' @ test_name @ [CHR 0x0A] @ ''Log: '' @ fst logged)
           (w\<lparr>keys := pending st, trace := events st @ snd logged\<rparr>))"

text \<open>
  \<open>run_test\<close> of momo.py. An index outside the table raises IndexError; the menu and
  \<open>run_all\<close> pass indices of the table only.
\<close>

definition run_test :: "env \<Rightarrow> nat \<Rightarrow> world \<Rightarrow> unit result \<times> world" where
  "run_test env index w =
     (if index \<ge> length TESTS then (Raises IndexError, w)
      else case TESTS ! index of (test_name, cmd, tool) \<Rightarrow>
        if \<not> check_tool_available (which env) tool then
          show_message
            (''Error: Required tool '' @ [CHR 0x27] @ tool @ [CHR 0x27] @
             '' is not installed or not in PATH.'' @ [CHR 0x0A] @
             ''Install it via your package manager (e.g., '' @ [CHR 0x27] @
             ''sudo pacman -S '' @ tool @ [CHR 0x27] @ '').'') w
        else if test_name \<in> set DISK_TESTS then
          (case select_disk env w of
             (Returns None, w') \<Rightarrow> (Returns (), w')
           | (Returns (Some disk), w') \<Rightarrow>
               stream_test env test_name (replace ''/dev/sda'' (''/dev/'' @ disk) cmd) w'
           | (Raises e, w') \<Rightarrow> (Raises e, w')
           | (Blocks, w') \<Rightarrow> (Blocks, w'))
        else stream_test env test_name cmd w)"

section \<open>momo9.py: \<open>run_command_stream\<close>\<close>

text \<open>
  The generator of momo9.py checks the flag at the head of its \<open>while\<close> loop, before it
  reads: set, it terminates the child and breaks. At the end of the stream it polls until
  the child has gone. Any exception becomes a yielded line.
\<close>

datatype generator9 =
    Gen9Start string "exn + child"
  | Gen9AtLine child
  | Gen9AtError
  | Gen9Done

definition while_head9 :: "bool \<Rightarrow> child \<Rightarrow> string option \<times> generator9 \<times> event list" where
  "while_head9 stop p =
     (if stop then (None, Gen9Done, [Terminate])
      else case stdout_lines p of
             [] \<Rightarrow> (None, Gen9Done, [Poll])
           | l # ls \<Rightarrow> (Some (rstrip l), Gen9AtLine (p\<lparr>stdout_lines := ls\<rparr>), []))"

fun gen_next9 :: "bool \<Rightarrow> generator9 \<Rightarrow> string option \<times> generator9 \<times> event list" where
  "gen_next9 stop (Gen9Start cmd (Inl e)) =
     (Some (''Error running command: '' @ str_of_exn e), Gen9AtError, [])"
| "gen_next9 stop (Gen9Start cmd (Inr p)) =
     (case while_head9 stop p of (y, g, evs) \<Rightarrow> (y, g, Popen cmd # evs))"
| "gen_next9 stop (Gen9AtLine p) = while_head9 stop p"
| "gen_next9 stop Gen9AtError = (None, Gen9Done, [])"
| "gen_next9 stop Gen9Done = (None, Gen9Done, [])"

text \<open>
  A consumer of a generator, whatever it does with the items: it resumes the generator
  again and again, and the flag has some value at each resumption. \<open>drive\<close> collects the
  events of all resumptions.
\<close>

fun drive :: "(bool \<Rightarrow> 'g \<Rightarrow> string option \<times> 'g \<times> event list) \<Rightarrow> bool list \<Rightarrow> 'g \<Rightarrow> event list" where
  "drive nxt [] g = []"
| "drive nxt (stop # stops) g = (case nxt stop g of (y, g', evs) \<Rightarrow> evs @ drive nxt stops g')"

section \<open>momo10.py\<close>

text \<open>\<open>line.split()[0]\<close> on a line that is not blank.\<close>

definition first_token :: "string \<Rightarrow> string" where
  "first_token line = takeWhile (\<lambda>c. \<not> isspace c) (dropWhile isspace line)"

text \<open>
  The disks \<open>select_disk\<close> finds: the first word of every line of \<open>lsblk\<close> that contains
  \<open>disk\<close>; none when \<open>subprocess.run\<close> raised.
\<close>

definition list_disks :: "exn + string list \<Rightarrow> string list" where
  "list_disks r =
     (case r of Inl e \<Rightarrow> [] | Inr ls \<Rightarrow> map first_token (filter (sublist ''disk'') ls))"

text \<open>\<open>input(prompt)\<close>: the next line of standard input; EOFError at its end.\<close>

definition input_line :: "string \<Rightarrow> world \<Rightarrow> string result \<times> world" where
  "input_line prompt w =
     (case stdin w of
        [] \<Rightarrow> (Raises EOFError, w\<lparr>trace := trace w @ [Prompt prompt]\<rparr>)
      | l # ls \<Rightarrow> (Returns l, w\<lparr>stdin := ls, trace := trace w @ [Prompt prompt]\<rparr>))"

fun select_disk_loop10 ::
  "string list \<Rightarrow> string list \<Rightarrow> event list \<Rightarrow> string option result \<times> string list \<times> event list" where
  "select_disk_loop10 disks [] tr =
     (Raises EOFError, [], tr @ [Prompt ''Enter number (or q to cancel): ''])"
| "select_disk_loop10 disks (l # ls) tr =
     (let choice = strip l;
          tr' = tr @ [Prompt ''Enter number (or q to cancel): '']
      in if lower choice = ''q'' then (Returns None, ls, tr')
         else if isdigit choice \<and> 1 \<le> int_of_digits choice
                 \<and> int_of_digits choice \<le> int (length disks)
           then (Returns (Some (disks ! nat (int_of_digits choice - 1))), ls, tr')
         else select_disk_loop10 disks ls tr')"

definition select_disk10 :: "env \<Rightarrow> world \<Rightarrow> string option result \<times> world" where
  "select_disk10 env w =
     (let disks = list_disks (lsblk env) in
      if disks = [] then (Returns None, w)
      else if length disks = 1 then (Returns (Some (disks ! 0)), w)
      else case select_disk_loop10 disks (stdin w) (trace w) of
             (r, ls, tr) \<Rightarrow> (r, w\<lparr>stdin := ls, trace := tr\<rparr>))"

text \<open>
  \<open>run_command_stream\<close> of momo10.py, run to its end as the \<open>for\<close> loop of \<open>run_test\<close>
  does: the stripped lines of the child, or the one line of the \<open>except\<close> clause.
\<close>

definition run_command_stream10 :: "string \<Rightarrow> exn + child \<Rightarrow> string list \<times> event list" where
  "run_command_stream10 cmd r =
     (case r of
        Inl e \<Rightarrow> ([''Error running command: '' @ str_of_exn e], [])
      | Inr p \<Rightarrow> (map rstrip (stdout_lines p), [Popen cmd, Poll]))"

definition isalnum_char :: "char \<Rightarrow> bool" where
  "isalnum_char c =
     ((48 \<le> ord c \<and> ord c \<le> 57) \<or> (65 \<le> ord c \<and> ord c \<le> 90) \<or> (97 \<le> ord c \<and> ord c \<le> 122))"

definition sanitize_filename :: "string \<Rightarrow> string" where
  "sanitize_filename name =
     replace '' '' ''_''
       (strip (map (\<lambda>c. if isalnum_char c \<or> c \<in> set [CHR '' '', CHR ''-'', CHR ''_''] then c
                         else CHR ''_'') name))"

text \<open>\<open>write_log_stream\<close> of momo10.py: a failure to open or write the file is not caught.\<close>

definition write_log_stream10 :: "env \<Rightarrow> string \<Rightarrow> string list \<Rightarrow> string result \<times> event list" where
  "write_log_stream10 env test_name ls =
     (let fname = timestamp env @ ''-'' @ sanitize_filename test_name @ ''.log''
      in case log_write_error env of
           None \<Rightarrow> (Returns fname, [WriteLog fname ls])
         | Some e \<Rightarrow> (Raises (OtherException e), []))"

text \<open>\<open>run_test\<close> of momo10.py from the spawn on (lines 105 to 111).\<close>

definition run_and_log10 :: "env \<Rightarrow> string \<Rightarrow> string \<Rightarrow> world \<Rightarrow> unit result \<times> world" where
  "run_and_log10 env test_name cmd w =
     (let streamed = run_command_stream10 cmd (popen env cmd);
          logged = write_log_stream10 env test_name (fst streamed);
          w' = w\<lparr>trace := trace w @ snd streamed @ snd logged\<rparr>
      in case fst logged of
           Returns logpath \<Rightarrow> (Returns (), w')
         | Raises e \<Rightarrow> (Raises e, w')
         | Blocks \<Rightarrow> (Blocks, w'))"

text \<open>\<open>run_test\<close> of momo10.py from the disk selection on (lines 98 to 111).\<close>

definition disk_and_run10 :: "env \<Rightarrow> string \<Rightarrow> string \<Rightarrow> world \<Rightarrow> unit result \<times> world" where
  "disk_and_run10 env test_name cmd w =
     (if test_name \<in> set DISK_TESTS then
        (case select_disk10 env w of
           (Returns None, w') \<Rightarrow> (Returns (), w')
         | (Returns (Some disk), w') \<Rightarrow>
             run_and_log10 env test_name (replace ''/dev/sda'' (''/dev/'' @ disk) cmd) w'
         | (Raises e, w') \<Rightarrow> (Raises e, w')
         | (Blocks, w') \<Rightarrow> (Blocks, w'))
      else run_and_log10 env test_name cmd w)"

text \<open>
  \<open>run_test(test_name, cmd, tool)\<close> of momo10.py. When the tool is missing the user is
  asked \<open>Skip? [Y/n]\<close>, and the function returns when the answer is \<open>n\<close>.
\<close>

definition run_test10 :: "env \<Rightarrow> string \<Rightarrow> string \<Rightarrow> string \<Rightarrow> world \<Rightarrow> unit result \<times> world" where
  "run_test10 env test_name cmd tool w =
     (if \<not> is_tool_installed (which env) tool then
        (case input_line (''Tool '' @ [CHR 0x27] @ tool @ [CHR 0x27] @ '' not found. Skip? [Y/n]: '') w of
           (Returns l, w') \<Rightarrow>
             if lower (strip l) = ''n'' then (Returns (), w')
             else disk_and_run10 env test_name cmd w'
         | (Raises e, w') \<Rightarrow> (Raises e, w')
         | (Blocks, w') \<Rightarrow> (Blocks, w'))
      else disk_and_run10 env test_name cmd w)"

section \<open>Example surroundings\<close>

text \<open>
  A search path that finds nothing and one that finds every tool, a child that writes
  three lines and is still running when they have been read, and surroundings in which
  every command starts that child on a screen of 24 rows.
\<close>

definition empty_path :: "string \<Rightarrow> string option" where
  "empty_path t = None"

definition full_path :: "string \<Rightarrow> string option" where
  "full_path t = Some (''/usr/bin/'' @ t)"

definition three_lines :: child where
  "three_lines =
     \<lparr>stdout_lines = [''one'' @ [CHR 0x0A], ''two'' @ [CHR 0x0A], ''three'' @ [CHR 0x0A]],
      running_at_eof = True\<rparr>"

definition example_env :: env where
  "example_env =
     \<lparr>which = full_path, popen = (\<lambda>cmd. Inr three_lines), get_disks = [''sda''],
      lsblk = Inr [''sda disk 256G''], height = 24, timestamp = ''20250101'',
      log_write_error = None\<rparr>"

section \<open>Properties\<close>

subsection \<open>The selection of the menu\<close>

lemma length_TESTS: "length TESTS = 13"
  by (simp add: TESTS_def)




subsection \<open>The keys of the streaming loop\<close>

text \<open>
  C7, as stated, fails on momo.py: while a test streams, \<open>k\<close>, \<open>j\<close> and Escape have no
  branch (the screen says "Use the arrows to scroll"), so they produce no event.
\<close>

theorem stream_key_k_counterexample:
  "stream_key (ord CHR ''k'') \<noteq> ScrollUp \<and> stream_key (ord CHR ''j'') \<noteq> ScrollDown
   \<and> stream_key 27 \<noteq> Quit"
  by (simp add: stream_key_def ord_def KEY_UP_def KEY_DOWN_def)

text \<open>
  C7, amended. For every key read during streaming in momo.py: arrow-up scrolls up,
  arrow-down scrolls down, lower-case \<open>s\<close> or \<open>q\<close> stops, and no key pressed or any other
  key, \<open>k\<close>, \<open>j\<close> and Escape among them, produces no event. Nothing is said here about
  upper-case \<open>S\<close> and \<open>Q\<close>, which the header of the screen names as the stop keys.
\<close>

theorem stream_key_mapping:
  "stream_key KEY_UP = ScrollUp \<and> stream_key KEY_DOWN = ScrollDown
   \<and> stream_key (ord CHR ''s'') = Stop \<and> stream_key (ord CHR ''q'') = Stop
   \<and> stream_key ERR = NoEvent
   \<and> (c \<notin> set [KEY_UP, KEY_DOWN, ord CHR ''s'', ord CHR ''q'', ord CHR ''S'', ord CHR ''Q'']
        \<longrightarrow> stream_key c = NoEvent)"
  by (simp add: stream_key_def ord_def KEY_UP_def KEY_DOWN_def ERR_def)

text \<open>The key \<open>k\<close> is such an other key.\<close>

theorem stream_key_mapping_witness:
  "ord CHR ''k'' \<notin> set [KEY_UP, KEY_DOWN, ord CHR ''s'', ord CHR ''q'', ord CHR ''S'', ord CHR ''Q'']
   \<and> stream_key (ord CHR ''k'') = NoEvent"
  using stream_key_mapping [of "ord CHR ''k''"]
  by (simp add: ord_def KEY_UP_def KEY_DOWN_def)

subsection \<open>Tool presence\<close>

text \<open>
  C8, as stated, fails on momo7.py: \<open>uptime\<close> is outside the five names of the claim and
  not on the search path, yet the check of momo7.py returns True.
\<close>

theorem is_tool_installed_momo7_counterexample:
  "''uptime'' \<notin> set [''cat'', ''free'', ''swapon'', ''df'', ''ping'']
   \<and> empty_path ''uptime'' = None
   \<and> is_tool_installed_momo7 empty_path ''uptime''"
  by (simp add: is_tool_installed_momo7_def empty_path_def)

text \<open>
  C8, amended. The check returns True for every name of the file's fixed whitelist
  whatever the search path holds, and for every other name exactly when the executable is
  found on the search path. The whitelist is \<open>cat\<close>, \<open>free\<close>, \<open>swapon\<close>, \<open>df\<close>, \<open>ping\<close>
  in momo9.py and momo10.py, and those five with \<open>uptime\<close>, \<open>uname\<close>, \<open>top\<close> in momo7.py.
\<close>

theorem is_tool_installed_whitelists:
  "(tool \<in> set [''cat'', ''free'', ''swapon'', ''df'', ''ping''] \<longrightarrow> is_tool_installed w tool)
   \<and> (tool \<notin> set [''cat'', ''free'', ''swapon'', ''df'', ''ping'']
        \<longrightarrow> is_tool_installed w tool = (w tool \<noteq> None))
   \<and> (tool \<in> set [''cat'', ''free'', ''swapon'', ''df'', ''ping'', ''uptime'', ''uname'', ''top'']
        \<longrightarrow> is_tool_installed_momo7 w tool)
   \<and> (tool \<notin> set [''cat'', ''free'', ''swapon'', ''df'', ''ping'', ''uptime'', ''uname'', ''top'']
        \<longrightarrow> is_tool_installed_momo7 w tool = (w tool \<noteq> None))"
  unfolding is_tool_installed_def is_tool_installed_momo7_def by auto

text \<open>A whitelisted and another name, on an empty and on a full search path.\<close>

theorem is_tool_installed_whitelists_witness:
  "is_tool_installed empty_path ''ping''
   \<and> is_tool_installed full_path ''lscpu'' \<and> \<not> is_tool_installed empty_path ''lscpu''
   \<and> is_tool_installed_momo7 empty_path ''top''
   \<and> is_tool_installed_momo7 full_path ''lscpu'' \<and> \<not> is_tool_installed_momo7 empty_path ''lscpu''"
  using is_tool_installed_whitelists [of "''ping''" empty_path]
    is_tool_installed_whitelists [of "''lscpu''" full_path]
    is_tool_installed_whitelists [of "''lscpu''" empty_path]
    is_tool_installed_whitelists [of "''top''" empty_path]
  by (simp add: empty_path_def full_path_def)

subsection \<open>Stop requests and the generators\<close>

lemma drive_GenDone: "drive gen_next stops GenDone = []"
  by (induction stops) auto

lemma drive_Gen9Done: "drive gen_next9 stops Gen9Done = []"
  by (induction stops) auto

lemma drive_after_notice: "Terminate \<notin> set (drive gen_next stops GenAtTerminated)"
  by (cases stops) (auto simp: drive_GenDone)

lemma drive_after_error: "drive gen_next stops GenAtError = []"
  by (cases stops) (auto simp: drive_GenDone)

lemma drive_after_error9: "drive gen_next9 stops Gen9AtError = []"
  by (cases stops) (auto simp: drive_Gen9Done)

lemma count_Terminate_AtLine:
  "count_list (drive gen_next stops (GenAtLine p)) Terminate \<le> 1"
proof (induction stops arbitrary: p)
  case Nil
  show ?case by simp
next
  case (Cons stop stops)
  show ?case
  proof (cases stop)
    case True
    then show ?thesis
      using drive_after_notice [of stops] by (simp add: count_list_0_iff)
  next
    case False
    show ?thesis
    proof (cases "stdout_lines p")
      case Nil
      with False show ?thesis by (simp add: for_line_def drive_GenDone)
    next
      case (Cons l ls)
      with False Cons.IH [of "p\<lparr>stdout_lines := ls\<rparr>"] show ?thesis
        by (simp add: for_line_def)
    qed
  qed
qed

lemma count_Terminate_gen:
  "count_list (drive gen_next stops g) Terminate \<le> 1"
proof (cases stops)
  case Nil
  then show ?thesis by simp
next
  case (Cons stop rest)
  show ?thesis
  proof (cases g)
    case (GenStart cmd r)
    show ?thesis
    proof (cases r)
      case (Inl e)
      with GenStart Cons show ?thesis by (simp add: drive_after_error)
    next
      case (Inr p)
      show ?thesis
      proof (cases "stdout_lines p")
        case Nil
        with Inr GenStart Cons show ?thesis by (simp add: for_line_def drive_GenDone)
      next
        case (Cons l ls)
        with Inr GenStart \<open>stops = stop # rest\<close>
          count_Terminate_AtLine [of rest "p\<lparr>stdout_lines := ls\<rparr>"]
        show ?thesis by (simp add: for_line_def)
      qed
    qed
  next
    case (GenAtLine p)
    then show ?thesis using count_Terminate_AtLine by simp
  next
    case GenAtTerminated
    then show ?thesis using drive_after_notice [of stops] by (simp add: count_list_0_iff)
  next
    case GenAtError
    then show ?thesis by (simp add: drive_after_error)
  next
    case GenDone
    then show ?thesis by (simp add: drive_GenDone)
  qed
qed

lemma count_Terminate_AtLine9:
  "count_list (drive gen_next9 stops (Gen9AtLine p)) Terminate \<le> 1"
proof (induction stops arbitrary: p)
  case Nil
  show ?case by simp
next
  case (Cons stop stops)
  show ?case
  proof (cases stop)
    case True
    then show ?thesis by (simp add: while_head9_def drive_Gen9Done)
  next
    case False
    show ?thesis
    proof (cases "stdout_lines p")
      case Nil
      with False show ?thesis by (simp add: while_head9_def drive_Gen9Done)
    next
      case (Cons l ls)
      with False Cons.IH [of "p\<lparr>stdout_lines := ls\<rparr>"] show ?thesis
        by (simp add: while_head9_def)
    qed
  qed
qed

lemma count_Terminate_gen9:
  "count_list (drive gen_next9 stops g) Terminate \<le> 1"
proof (cases stops)
  case Nil
  then show ?thesis by simp
next
  case (Cons stop rest)
  show ?thesis
  proof (cases g)
    case (Gen9Start cmd r)
    show ?thesis
    proof (cases r)
      case (Inl e)
      with Gen9Start Cons show ?thesis by (simp add: drive_after_error9)
    next
      case (Inr p)
      show ?thesis
      proof (cases stop)
        case True
        with Inr Gen9Start Cons show ?thesis by (simp add: while_head9_def drive_Gen9Done)
      next
        case False
        show ?thesis
        proof (cases "stdout_lines p")
          case Nil
          with False Inr Gen9Start Cons show ?thesis
            by (simp add: while_head9_def drive_Gen9Done)
        next
          case (Cons l ls)
          with False Inr Gen9Start \<open>stops = stop # rest\<close>
            count_Terminate_AtLine9 [of rest "p\<lparr>stdout_lines := ls\<rparr>"]
          show ?thesis by (simp add: while_head9_def)
        qed
      qed
    qed
  next
    case (Gen9AtLine p)
    then show ?thesis using count_Terminate_AtLine9 by simp
  next
    case Gen9AtError
    then show ?thesis by (simp add: drive_after_error9)
  next
    case Gen9Done
    then show ?thesis by (simp add: drive_Gen9Done)
  qed
qed

text \<open>
  C5. However often and whenever the stop flag is found set while the generator of
  momo.py or of momo9.py is resumed, \<open>terminate()\<close> is called at most once on the child;
  once the generator has finished, a flag set afterwards causes nothing at all. Every
  resumption yields an item or ends the iteration: an exception of \<open>Popen\<close> is caught
  and yielded as a line.
\<close>

theorem stop_request_idempotent:
  "count_list (drive gen_next stops g) Terminate \<le> 1
   \<and> count_list (drive gen_next9 stops g9) Terminate \<le> 1
   \<and> drive gen_next stops GenDone = []
   \<and> drive gen_next9 stops Gen9Done = []"
  using count_Terminate_gen [of stops g] count_Terminate_gen9 [of stops g9]
  by (simp add: drive_GenDone drive_Gen9Done)

text \<open>The flag set before the second, third and fourth resumption.\<close>

theorem stop_request_idempotent_witness:
  "drive gen_next [False, True, True, True] (GenStart ''ping'' (Inr three_lines))
     = [Popen ''ping'', Terminate, Wait, Poll]
   \<and> count_list (drive gen_next [False, True, True, True] (GenStart ''ping'' (Inr three_lines))) Terminate \<le> 1
   \<and> drive gen_next9 [False, True, True, True] (Gen9Start ''ping'' (Inr three_lines))
     = [Popen ''ping'', Terminate]
   \<and> count_list (drive gen_next9 [False, True, True, True] (Gen9Start ''ping'' (Inr three_lines))) Terminate \<le> 1"
  using stop_request_idempotent [of "[False, True, True, True]" "GenStart ''ping'' (Inr three_lines)"
      "Gen9Start ''ping'' (Inr three_lines)"]
  by (simp add: three_lines_def for_line_def while_head9_def)

subsection \<open>Disk selection of momo10.py\<close>

text \<open>
  C10. In momo10.py, when exactly one disk is enumerated \<open>select_disk\<close> returns it at
  once: no prompt is printed and no line of input is read. So a cancelled selection
  (the result \<open>None\<close>) means that no disk or at least two disks were enumerated.
\<close>

theorem select_disk10_single:
  "(length (list_disks (lsblk env)) = 1
      \<longrightarrow> select_disk10 env w = (Returns (Some (hd (list_disks (lsblk env)))), w))
   \<and> (fst (select_disk10 env w) = Returns None
      \<longrightarrow> length (list_disks (lsblk env)) = 0 \<or> 2 \<le> length (list_disks (lsblk env)))"
proof (intro conjI impI)
  assume one: "length (list_disks (lsblk env)) = 1"
  then have "list_disks (lsblk env) \<noteq> []" by auto
  with one show "select_disk10 env w = (Returns (Some (hd (list_disks (lsblk env)))), w)"
    by (simp add: select_disk10_def Let_def hd_conv_nth)
next
  assume none: "fst (select_disk10 env w) = Returns None"
  show "length (list_disks (lsblk env)) = 0 \<or> 2 \<le> length (list_disks (lsblk env))"
  proof (rule ccontr)
    assume "\<not> ?thesis"
    then have one: "length (list_disks (lsblk env)) = 1" by arith
    then have "list_disks (lsblk env) \<noteq> []" by auto
    with one have "fst (select_disk10 env w) = Returns (Some (list_disks (lsblk env) ! 0))"
      by (simp add: select_disk10_def Let_def)
    with none show False by simp
  qed
qed

text \<open>One disk with a \<open>q\<close> waiting on the input, and two disks with the same \<open>q\<close>.\<close>

theorem select_disk10_single_witness:
  "length (list_disks (lsblk example_env)) = 1
   \<and> select_disk10 example_env \<lparr>keys = [], stdin = [''q''], trace = []\<rparr>
       = (Returns (Some ''sda''), \<lparr>keys = [], stdin = [''q''], trace = []\<rparr>)
   \<and> fst (select_disk10 (example_env\<lparr>lsblk := Inr [''sda disk 256G'', ''sdb disk 1T'']\<rparr>)
            \<lparr>keys = [], stdin = [''q''], trace = []\<rparr>) = Returns None
   \<and> 2 \<le> length (list_disks (lsblk (example_env\<lparr>lsblk := Inr [''sda disk 256G'', ''sdb disk 1T'']\<rparr>)))"
proof -
  have d1: "list_disks (lsblk example_env) = [''sda'']"
    by code_simp
  have d2: "list_disks (lsblk (example_env\<lparr>lsblk := Inr [''sda disk 256G'', ''sdb disk 1T'']\<rparr>))
              = [''sda'', ''sdb'']"
    by code_simp
  have q: "fst (select_disk10 (example_env\<lparr>lsblk := Inr [''sda disk 256G'', ''sdb disk 1T'']\<rparr>)
            \<lparr>keys = [], stdin = [''q''], trace = []\<rparr>) = Returns None"
    by code_simp
  show ?thesis
    using select_disk10_single [of example_env "\<lparr>keys = [], stdin = [''q''], trace = []\<rparr>"]
      select_disk10_single [of "example_env\<lparr>lsblk := Inr [''sda disk 256G'', ''sdb disk 1T'']\<rparr>"
        "\<lparr>keys = [], stdin = [''q''], trace = []\<rparr>"]
      d1 d2 q
    by simp
qed

subsection \<open>A missing tool in momo10.py\<close>

text \<open>
  C4 at a failing input. In momo10.py the tool \<open>sensors\<close> is missing and the user
  answers \<open>y\<close> to "Skip?": the test is not skipped, the command is spawned.
\<close>

theorem skip_answer_runs_test:
  "run_test10 (example_env\<lparr>which := empty_path\<rparr>) ''Sensors'' ''sensors'' ''sensors''
     \<lparr>keys = [], stdin = [''y''], trace = []\<rparr>
   = (Returns (),
      \<lparr>keys = [], stdin = [],
       trace = [Prompt (''Tool '' @ [CHR 0x27] @ ''sensors'' @ [CHR 0x27] @ '' not found. Skip? [Y/n]: ''),
                Popen ''sensors'', Poll,
                WriteLog ''20250101-Sensors.log'' [''one'', ''two'', ''three'']]\<rparr>)"
  by code_simp

subsection \<open>A command that cannot be launched, in momo.py\<close>






subsection \<open>A full pad in momo.py\<close>




lemma stream_loop_line_step:
  assumes "gen_next (stop_flag st) (gen st) = (Some line, g, evs)"
    and "idx_line st < pad_height"
    and "stream_key (fst (getch_nodelay (pending st))) \<noteq> Stop"
  shows "\<exists>off. stream_loop h st =
    stream_loop h
      (st\<lparr>lines := lines st @ [line], idx_line := idx_line st + 1, gen := g,
          pending := snd (getch_nodelay (pending st)), events := events st @ evs,
          offset := off\<rparr>)"
proof (cases "stream_key (fst (getch_nodelay (pending st)))")
  case Stop
  with assms(3) show ?thesis by simp
qed (use assms in \<open>subst stream_loop.simps, simp add: Let_def split del: if_split, blast\<close>)+






subsection \<open>Stopping a test in momo.py\<close>

text \<open>
  In the loop the flag is set only on the way out, so the generator is never resumed with
  the flag set: whatever the child writes and whatever keys are pressed, no run of the
  loop, and so no run of a test, calls \<open>terminate()\<close>.
\<close>

lemma gen_next_decreases:
  "gen_next stop g = (Some y, g', evs) \<Longrightarrow> gen_measure g' < gen_measure g"
  by (cases "(stop, g)" rule: gen_next.cases)
     (auto simp: for_line_def split: list.splits if_splits)

lemma gen_next_clear_events:
  "gen_next False g = (y, g', evs) \<Longrightarrow> Terminate \<notin> set evs"
  by (cases "(False, g)" rule: gen_next.cases)
     (auto simp: for_line_def split: list.splits if_splits)

lemma stream_loop_stop_step:
  assumes "gen_next (stop_flag st) (gen st) = (Some line, g, evs)"
    and "idx_line st < pad_height"
    and "stream_key (fst (getch_nodelay (pending st))) = Stop"
  shows "events (stream_loop h st) = events st @ evs"
  using assms by (subst stream_loop.simps) (simp add: Let_def)

lemma stream_loop_full_events:
  assumes "gen_next (stop_flag st) (gen st) = (Some line, g, evs)"
    and "pad_height \<le> idx_line st"
  shows "events (stream_loop h st) = events st @ evs"
  using assms by (subst stream_loop.simps) simp

lemma stream_loop_end_events:
  assumes "gen_next (stop_flag st) (gen st) = (None, g, evs)"
  shows "events (stream_loop h st) = events st @ evs"
  using assms by (subst stream_loop.simps) simp

lemma stream_loop_never_terminates:
  "\<not> stop_flag st \<Longrightarrow> Terminate \<notin> set (events st)
   \<Longrightarrow> Terminate \<notin> set (events (stream_loop h st))"
proof (induction "gen_measure (gen st)" arbitrary: st rule: less_induct)
  case less
  obtain y g evs where nxt: "gen_next (stop_flag st) (gen st) = (y, g, evs)"
    by (cases "gen_next (stop_flag st) (gen st)") auto
  with less.prems(1) have evs: "Terminate \<notin> set evs"
    using gen_next_clear_events [of "gen st" y g evs] by simp
  show ?case
  proof (cases y)
    case None
    with nxt stream_loop_end_events [of st g evs h] less.prems(2) evs show ?thesis by simp
  next
    case (Some line)
    note nxt' = nxt [unfolded Some]
    show ?thesis
    proof (cases "pad_height \<le> idx_line st")
      case True
      with stream_loop_full_events [OF nxt', of h] less.prems(2) evs show ?thesis by simp
    next
      case False
      then have idx: "idx_line st < pad_height" by simp
      show ?thesis
      proof (cases "stream_key (fst (getch_nodelay (pending st))) = Stop")
        case True
        with stream_loop_stop_step [OF nxt' idx, of h] less.prems(2) evs show ?thesis by simp
      next
        case False
        from stream_loop_line_step [OF nxt' idx False, of h] obtain off
          where step: "stream_loop h st =
            stream_loop h
              (st\<lparr>lines := lines st @ [line], idx_line := idx_line st + 1, gen := g,
                  pending := snd (getch_nodelay (pending st)), events := events st @ evs,
                  offset := off\<rparr>)"
          by blast
        let ?st = "st\<lparr>lines := lines st @ [line], idx_line := idx_line st + 1, gen := g,
                  pending := snd (getch_nodelay (pending st)), events := events st @ evs,
                  offset := off\<rparr>"
        have "gen_measure (gen ?st) < gen_measure (gen st)"
          using gen_next_decreases [OF nxt'] by simp
        from less.hyps [OF this] less.prems evs step show ?thesis by simp
      qed
    qed
  qed
qed

lemma stream_test_never_terminates:
  "Terminate \<notin> set (trace w) \<Longrightarrow> Terminate \<notin> set (trace (snd (stream_test env test_name cmd w)))"
  using stream_loop_never_terminates
    [of "\<lparr>lines = [], idx_line = 0, offset = 0, stop_flag = False,
          gen = GenStart cmd (popen env cmd), pending = keys w, events = trace w\<rparr>" "height env"]
  by (auto simp: stream_test_def Let_def show_message_def write_log_stream_def
      split: option.splits)

text \<open>
  C1 at a failing input. The Ping Test is run, the child has written its first line and
  the user presses \<open>s\<close>. The loop sets the flag and breaks; the generator, which holds the
  calls of \<open>terminate()\<close> and \<open>wait()\<close>, is never resumed. The log is written and the
  finished message is shown with the child neither terminated nor waited for.
\<close>

theorem stop_key_leaves_child_running:
  "run_test example_env 12 \<lparr>keys = [ord CHR ''s'', 10], stdin = [], trace = []\<rparr>
     = (Returns (),
        \<lparr>keys = [], stdin = [],
         trace = [Popen ''ping -c 2 google.com'',
                  WriteLog ''Ping_Test_20250101.log''
                    [''--- Momo Diagnostics Log: Ping Test ---'', ''Date: 20250101'',
                     replicate 50 CHR ''-'', ''one'', replicate 50 CHR ''-''],
                  ShowMessage (''Finished: Ping Test'' @ [CHR 0x0A] @ ''Log: Ping_Test_20250101.log'')]\<rparr>)"
  by code_simp

subsection \<open>The offset of the viewport in momo.py\<close>

text \<open>
  The lower bound holds: the offset is never negative. Arrow-up is clamped at 0, and the
  automatic scrolling only raises the offset.
\<close>

lemma stream_loop_line_step_offset:
  assumes "gen_next (stop_flag st) (gen st) = (Some line, g, evs)"
    and "idx_line st < pad_height"
    and "stream_key (fst (getch_nodelay (pending st))) \<noteq> Stop"
    and "0 \<le> offset st"
  shows "\<exists>off. 0 \<le> off \<and> stream_loop h st =
    stream_loop h
      (st\<lparr>lines := lines st @ [line], idx_line := idx_line st + 1, gen := g,
          pending := snd (getch_nodelay (pending st)), events := events st @ evs,
          offset := off\<rparr>)"
proof (cases "stream_key (fst (getch_nodelay (pending st)))")
  case Stop
  with assms(3) show ?thesis by simp
next
  case ScrollUp
  with assms show ?thesis
    apply (subst stream_loop.simps)
    apply (simp add: Let_def split del: if_split)
    apply (rule exI [of _ "max 0 ((if h - 6 < idx_line st + 1 \<and> offset st < idx_line st + 1 - (h - 6) then idx_line st + 1 - (h - 6) else offset st) - 1)"])
    apply simp
    done
next
  case ScrollDown
  with assms show ?thesis
    apply (subst stream_loop.simps)
    apply (simp add: Let_def split del: if_split)
    apply (rule exI [of _ "(if h - 6 < idx_line st + 1 \<and> offset st < idx_line st + 1 - (h - 6) then idx_line st + 1 - (h - 6) else offset st) + 1"])
    apply simp
    done
next
  case Select
  with assms show ?thesis
    apply (subst stream_loop.simps)
    apply (simp add: Let_def split del: if_split)
    apply (rule exI [of _ "if h - 6 < idx_line st + 1 \<and> offset st < idx_line st + 1 - (h - 6) then idx_line st + 1 - (h - 6) else offset st"])
    apply simp
    done
next
  case RunAllKey
  with assms show ?thesis
    apply (subst stream_loop.simps)
    apply (simp add: Let_def split del: if_split)
    apply (rule exI [of _ "if h - 6 < idx_line st + 1 \<and> offset st < idx_line st + 1 - (h - 6) then idx_line st + 1 - (h - 6) else offset st"])
    apply simp
    done
next
  case Quit
  with assms show ?thesis
    apply (subst stream_loop.simps)
    apply (simp add: Let_def split del: if_split)
    apply (rule exI [of _ "if h - 6 < idx_line st + 1 \<and> offset st < idx_line st + 1 - (h - 6) then idx_line st + 1 - (h - 6) else offset st"])
    apply simp
    done
next
  case NoEvent
  with assms show ?thesis
    apply (subst stream_loop.simps)
    apply (simp add: Let_def split del: if_split)
    apply (rule exI [of _ "if h - 6 < idx_line st + 1 \<and> offset st < idx_line st + 1 - (h - 6) then idx_line st + 1 - (h - 6) else offset st"])
    apply simp
    done
qed

lemma stream_loop_exit_offset:
  assumes "gen_next (stop_flag st) (gen st) = (y, g, evs)"
    and "y = None \<or> pad_height \<le> idx_line st
         \<or> stream_key (fst (getch_nodelay (pending st))) = Stop"
    and "0 \<le> offset st"
  shows "0 \<le> offset (stream_loop h st)"
  using assms by (subst stream_loop.simps) (auto simp: Let_def split: option.splits)

lemma stream_loop_offset_nonneg:
  "0 \<le> offset st \<Longrightarrow> 0 \<le> offset (stream_loop h st)"
proof (induction "gen_measure (gen st)" arbitrary: st rule: less_induct)
  case less
  obtain y g evs where nxt: "gen_next (stop_flag st) (gen st) = (y, g, evs)"
    by (cases "gen_next (stop_flag st) (gen st)") auto
  show ?case
  proof (cases "y = None \<or> pad_height \<le> idx_line st
         \<or> stream_key (fst (getch_nodelay (pending st))) = Stop")
    case True
    from stream_loop_exit_offset [OF nxt True less.prems] show ?thesis .
  next
    case False
    then obtain line where y: "y = Some line" and idx: "idx_line st < pad_height"
      and key: "stream_key (fst (getch_nodelay (pending st))) \<noteq> Stop"
      by auto
    note nxt' = nxt [unfolded y]
    from stream_loop_line_step_offset [OF nxt' idx key less.prems, of h] obtain off
      where off: "0 \<le> off" and step: "stream_loop h st =
        stream_loop h
          (st\<lparr>lines := lines st @ [line], idx_line := idx_line st + 1, gen := g,
              pending := snd (getch_nodelay (pending st)), events := events st @ evs,
              offset := off\<rparr>)"
      by blast
    let ?st = "st\<lparr>lines := lines st @ [line], idx_line := idx_line st + 1, gen := g,
              pending := snd (getch_nodelay (pending st)), events := events st @ evs,
              offset := off\<rparr>"
    have "gen_measure (gen ?st) < gen_measure (gen st)"
      using gen_next_decreases [OF nxt'] by simp
    from less.hyps [OF this] off step show ?thesis by simp
  qed
qed

text \<open>
  C2 at a failing input. On a screen of 24 rows (18 visible lines) the child writes one
  line and the user presses arrow-down: the offset becomes 1, past the bottom of a buffer
  of one line, whose greatest offset is 0.
\<close>

theorem scroll_down_passes_bottom:
  "stream_loop 24
     \<lparr>lines = [], idx_line = 0, offset = 0, stop_flag = False,
      gen = GenStart ''free -h'' (Inr \<lparr>stdout_lines = [''total''], running_at_eof = False\<rparr>),
      pending = [KEY_DOWN], events = []\<rparr>
   = \<lparr>lines = [''total''], idx_line = 1, offset = 1, stop_flag = False, gen = GenDone,
      pending = [], events = [Popen ''free -h'', Poll]\<rparr>
   \<and> \<not> (1 \<le> max 0 (int (length [''total'']) - (24 - 6)))"
  by code_simp

end
